theory Spec2Isabelle
  imports Main "HOL-Library.Word"
begin

section \<open>smtp2graph: the SMTP session, envelope reconciliation and the token cache\<close>

text \<open>
  A shallow embedding of \<^verbatim>\<open>src/main.go\<close> (the part that declares \<^verbatim>\<open>Session\<close>) and of
  \<^verbatim>\<open>src/graphmailhandler.go\<close>. Mutation of the receiver is explicit state passing: each
  method takes the session and returns the error (\<open>None\<close> for Go's \<^verbatim>\<open>nil\<close>) with the
  session after the call. What the Go standard library and the other packages do
  (\<^verbatim>\<open>net/mail\<close> parsing and formatting, the relay handler, the token source, the HTTP
  client) is not code of this repository: it enters every definition as a parameter.
\<close>

subsection \<open>Data\<close>

text \<open>\<^verbatim>\<open>mail.Address\<close>: a display name and the addr-spec.\<close>

record Address =
  Name :: string
  Address :: string

text \<open>
  \<^verbatim>\<open>mail.Message\<close>: \<^verbatim>\<open>Header\<close> is a Go \<^verbatim>\<open>map[string][]string\<close>, \<^verbatim>\<open>Body\<close> a reader, here the
  bytes it yields.
\<close>

type_synonym Header = "string \<rightharpoonup> string list"

record Message =
  Header :: Header
  Body :: string

text \<open>The fields of \<^verbatim>\<open>Config\<close> that the session reads.\<close>

record Config =
  SenderEmail :: string
  SenderPassword :: string

text \<open>
  Errors. \<^verbatim>\<open>smtp.SMTPError\<close> has a code, an enhanced code and a message; every other Go
  error (\<^verbatim>\<open>errors.New\<close>, \<^verbatim>\<open>fmt.Errorf\<close>, an error of a collaborator) is identified by the
  text its \<^verbatim>\<open>Error()\<close> method returns.
\<close>

datatype error =
  SMTPError (Code: nat) (EnhancedCode: "nat \<times> nat \<times> nat") (Message: string)
| GoError string

text \<open>
  \<^verbatim>\<open>newSMTPError\<close> builds the error and reports it to the observability sink; the report
  does not change the value returned.
\<close>

definition newSMTPError :: "nat \<Rightarrow> nat \<times> nat \<times> nat \<Rightarrow> string \<Rightarrow> error" where
  "newSMTPError code enhanced message = SMTPError code enhanced message"

text \<open>
  \<^verbatim>\<open>Session\<close>: \<^verbatim>\<open>ctx\<close> and \<^verbatim>\<open>handler\<close> are collaborators and are passed to the methods that
  use them; a nil and an empty \<^verbatim>\<open>recipients\<close> slice are both the empty list.
\<close>

record Session =
  config :: Config
  auth :: bool
  sender :: "Address option"
  recipients :: "Address list"

text \<open>
  The functions of \<^verbatim>\<open>net/mail\<close> that the session calls. Each parser returns \<open>None\<close> where
  the Go function returns a non-nil error (the session never inspects the error value).
\<close>

record MailLib =
  ParseAddress :: "string \<Rightarrow> Address option"
  ParseAddressList :: "string \<Rightarrow> Address list option"
  ReadMessage :: "string \<Rightarrow> Message option"
  AddressString :: "Address \<Rightarrow> string"

text \<open>
  \<^verbatim>\<open>Header.Get\<close> returns the first value stored under the key and the empty string when
  there is none; \<^verbatim>\<open>Header.AddressList\<close> parses that value and fails when it is empty.
\<close>

definition Get :: "Header \<Rightarrow> string \<Rightarrow> string" where
  "Get h key = (case h key of None \<Rightarrow> [] | Some [] \<Rightarrow> [] | Some (v # _) \<Rightarrow> v)"

definition AddressList :: "MailLib \<Rightarrow> Header \<Rightarrow> string \<Rightarrow> Address list option" where
  "AddressList L h key =
     (let hdr = Get h key in if hdr = [] then None else ParseAddressList L hdr)"

text \<open>\<^verbatim>\<open>strings.Join\<close>.\<close>

fun Join :: "string list \<Rightarrow> string \<Rightarrow> string" where
  "Join [] sep = []"
| "Join [x] sep = x"
| "Join (x # y # ys) sep = x @ sep @ Join (y # ys) sep"

text \<open>
  \<^verbatim>\<open>subtle.ConstantTimeCompare\<close> returns 1 when the two byte slices have equal contents
  and 0 otherwise.
\<close>

definition ConstantTimeCompare :: "string \<Rightarrow> string \<Rightarrow> int" where
  "ConstantTimeCompare x y = (if x = y then 1 else 0)"

subsection \<open>The session's methods\<close>

text \<open>\<^verbatim>\<open>Backend.NewSession\<close>.\<close>

definition NewSession :: "Config \<Rightarrow> Session" where
  "NewSession cfg = \<lparr>config = cfg, auth = False, sender = None, recipients = []\<rparr>"

text \<open>
  \<^verbatim>\<open>Session.Auth\<close> returns a PLAIN server around this callback whatever the mechanism
  asked for; the callback receives the decoded identity, username and password.
\<close>

definition Auth :: "Session \<Rightarrow> string \<Rightarrow> string \<Rightarrow> string \<Rightarrow> error option \<times> Session" where
  "Auth s identity username password =
     (let usernameMatch = (ConstantTimeCompare username (SenderEmail (config s)) = 1);
          passwordMatch = (ConstantTimeCompare password (SenderPassword (config s)) = 1)
      in if \<not> usernameMatch \<or> \<not> passwordMatch
         then (Some (GoError ''invalid username or password''), s)
         else (None, s\<lparr>auth := True\<rparr>))"

definition Mail :: "MailLib \<Rightarrow> Session \<Rightarrow> string \<Rightarrow> error option \<times> Session" where
  "Mail L s from =
     (if \<not> auth s
      then (Some (newSMTPError 530 (5, 7, 0) ''authentication required''), s)
      else if sender s \<noteq> None
      then (Some (newSMTPError 503 (5, 5, 1) ''sender already specified''), s)
      else if length (recipients s) > 0
      then (Some (newSMTPError 503 (5, 5, 1)
                    ''bad sequence of commands: MAIL FROM after RCPT TO''), s)
      else (case ParseAddress L from of
              None \<Rightarrow> (Some (newSMTPError 550 (5, 1, 7) ''invalid sender address''), s)
            | Some addr \<Rightarrow> (None, s\<lparr>sender := Some addr\<rparr>)))"

definition Rcpt :: "MailLib \<Rightarrow> Session \<Rightarrow> string \<Rightarrow> error option \<times> Session" where
  "Rcpt L s to =
     (if \<not> auth s
      then (Some (newSMTPError 530 (5, 7, 0) ''authentication required''), s)
      else if sender s = None
      then (Some (newSMTPError 503 (5, 5, 1)
                    ''bad sequence of commands: RCPT TO before MAIL FROM''), s)
      else (case ParseAddress L to of
              None \<Rightarrow> (Some (newSMTPError 550 (5, 1, 3) ''invalid recipient address''), s)
            | Some addr \<Rightarrow> (None, s\<lparr>recipients := recipients s @ [addr]\<rparr>)))"

definition Reset :: "Session \<Rightarrow> Session" where
  "Reset s = s\<lparr>sender := None, recipients := []\<rparr>"

definition Logout :: "Session \<Rightarrow> error option \<times> Session" where
  "Logout s = (None, s)"

subsection \<open>\<^verbatim>\<open>Session.Data\<close>\<close>

text \<open>
  The fallback text written to the buffer when the submitted bytes do not parse: four
  header lines, an empty line and the bytes.
\<close>

definition fallbackBytes :: "MailLib \<Rightarrow> Address \<Rightarrow> Address list \<Rightarrow> string \<Rightarrow> string" where
  "fallbackBytes L sndr rcpts b =
     (let from = AddressString L sndr;
          toList = map (AddressString L) rcpts;
          to = Join toList '', ''
      in (''From: '' @ from @ [CHR 0x0D, CHR 0x0A])
         @ (''To: '' @ to @ [CHR 0x0D, CHR 0x0A])
         @ (''Subject: (no subject)'' @ [CHR 0x0D, CHR 0x0A])
         @ (''Content-Type: text/plain; charset=utf-8'' @ [CHR 0x0D, CHR 0x0A])
         @ [CHR 0x0D, CHR 0x0A]
         @ b)"

text \<open>
  Parsing with the fallback: \<open>None\<close> is the branch that returns the 550 error
  \<^verbatim>\<open>invalid message format\<close>.
\<close>

definition parseMessage :: "MailLib \<Rightarrow> Address \<Rightarrow> Address list \<Rightarrow> string \<Rightarrow> Message option" where
  "parseMessage L sndr rcpts b =
     (case ReadMessage L b of
        Some msg \<Rightarrow> Some msg
      | None \<Rightarrow> ReadMessage L (fallbackBytes L sndr rcpts b))"

text \<open>
  The set of the addresses found in the To, Cc and Bcc headers; a header that does not
  parse adds nothing.
\<close>

definition recipientSet :: "MailLib \<Rightarrow> Message \<Rightarrow> string set" where
  "recipientSet L msg =
     set (concat (map (\<lambda>header. case AddressList L (Header msg) header of
                                  None \<Rightarrow> []
                                | Some addrs \<Rightarrow> map Address addrs)
                      [''To'', ''Cc'', ''Bcc'']))"

definition missingRecipients :: "MailLib \<Rightarrow> Address list \<Rightarrow> Message \<Rightarrow> string list" where
  "missingRecipients L rcpts msg =
     map (AddressString L) (filter (\<lambda>rcpt. Address rcpt \<notin> recipientSet L msg) rcpts)"

definition patchBcc :: "MailLib \<Rightarrow> Address list \<Rightarrow> Message \<Rightarrow> Message" where
  "patchBcc L rcpts msg =
     (let missing = missingRecipients L rcpts msg
      in if length missing > 0
         then (let oldBcc = Get (Header msg) ''Bcc'';
                   missingStr = Join missing '', ''
               in if oldBcc \<noteq> []
                  then msg\<lparr>Header := (Header msg)(''Bcc'' \<mapsto> [oldBcc @ '', '' @ missingStr])\<rparr>
                  else msg\<lparr>Header := (Header msg)(''Bcc'' \<mapsto> [missingStr])\<rparr>)
         else msg)"

definition patchFrom :: "MailLib \<Rightarrow> Address option \<Rightarrow> Message \<Rightarrow> Message" where
  "patchFrom L sndr msg =
     (case sndr of
        None \<Rightarrow> msg
      | Some sa \<Rightarrow>
          (let found = (case AddressList L (Header msg) ''From'' of
                          None \<Rightarrow> False
                        | Some fromAddrs \<Rightarrow> (\<exists>addr \<in> set fromAddrs. Address addr = Address sa))
           in if \<not> found
              then msg\<lparr>Header := (Header msg)(''From'' \<mapsto> [AddressString L sa])\<rparr>
              else msg))"

text \<open>The two patches in the order of the source: first Bcc, then From.\<close>

definition reconcile :: "MailLib \<Rightarrow> Address option \<Rightarrow> Address list \<Rightarrow> Message \<Rightarrow> Message" where
  "reconcile L sndr rcpts msg = patchFrom L sndr (patchBcc L rcpts msg)"

text \<open>
  \<^verbatim>\<open>Session.Data\<close>. The reader is given by what \<^verbatim>\<open>io.ReadAll\<close> returns on it (an error or
  the bytes); \<open>handler\<close> is \<^verbatim>\<open>s.handler.message\<close>, returning \<open>None\<close> for \<^verbatim>\<open>nil\<close> and
  otherwise the text of the error.
\<close>

definition Data :: "MailLib \<Rightarrow> (Message \<Rightarrow> string option) \<Rightarrow> Session \<Rightarrow> error + string
                    \<Rightarrow> error option \<times> Session" where
  "Data L handler s r =
     (if \<not> auth s
      then (Some (newSMTPError 530 (5, 7, 0) ''authentication required''), s)
      else case sender s of
        None \<Rightarrow> (Some (newSMTPError 503 (5, 5, 1) ''sender not specified''), s)
      | Some sa \<Rightarrow>
          if length (recipients s) = 0
          then (Some (newSMTPError 503 (5, 5, 1) ''no recipients specified''), s)
          else (case r of
                  Inl err \<Rightarrow> (Some err, s)
                | Inr b \<Rightarrow>
                    (case parseMessage L sa (recipients s) b of
                       None \<Rightarrow> (Some (newSMTPError 550 (5, 6, 0) ''invalid message format''), s)
                     | Some msg \<Rightarrow>
                         (case handler (reconcile L (sender s) (recipients s) msg) of
                            Some errText \<Rightarrow> (Some (newSMTPError 554 (5, 3, 0) errText), s)
                          | None \<Rightarrow> (None, s)))))"

subsection \<open>The handler's token cache and the relay call\<close>

text \<open>
  \<^verbatim>\<open>GraphMailHandler\<close>: the cached token and its expiry in Unix seconds, a Go \<^verbatim>\<open>int64\<close>.
  The mutex makes each call of \<^verbatim>\<open>getCachedToken\<close> atomic, so a call is one function
  application here.
\<close>

type_synonym int64 = "64 word"

record GraphMailHandler =
  token :: string
  tokenExp :: int64

text \<open>What the token source returns: the token and \<^verbatim>\<open>ExpiresOn.Unix()\<close>.\<close>

record AccessToken =
  Token :: string
  ExpiresOn :: int64

text \<open>
  The token source \<^verbatim>\<open>cred.GetToken\<close>: given the scopes asked for and the number of
  requests it has served before, it answers with the text of an error or with a token.
\<close>

type_synonym TokenSource = "string list \<Rightarrow> nat \<Rightarrow> string + AccessToken"

text \<open>
  \<^verbatim>\<open>getCachedToken\<close> at clock value \<open>now\<close> (\<^verbatim>\<open>time.Now().Unix()\<close>). The state is the handler
  with the number of requests sent to the token source so far; the result is Go's pair
  of the token and the error.
\<close>

definition getCachedToken ::
  "TokenSource \<Rightarrow> int64 \<Rightarrow> GraphMailHandler \<times> nat
     \<Rightarrow> (string \<times> error option) \<times> GraphMailHandler \<times> nat" where
  "getCachedToken GetToken now st =
     (case st of (h, calls) \<Rightarrow>
        if token h = [] \<or> tokenExp h - 60 <s now
        then (case GetToken [''https://graph.microsoft.com/.default''] calls of
                Inl errText \<Rightarrow> (([], Some (GoError (''GetToken: '' @ errText))), h, Suc calls)
              | Inr tok \<Rightarrow>
                  (let h' = h\<lparr>token := Token tok, tokenExp := ExpiresOn tok\<rparr>
                   in ((token h', None), h', Suc calls)))
        else ((token h, None), h, calls))"

text \<open>
  The HTTP side of \<^verbatim>\<open>sendRawMimeMail\<close>. A response carries the numeric status, the status
  text and a body; \<^verbatim>\<open>io.ReadAll\<close> on the body gives the bytes read and possibly an error.
\<close>

record Request =
  Method :: string
  URL :: string
  ReqBody :: string
  ReqHeader :: Header

record Response =
  StatusCode :: int
  Status :: string
  RespBody :: "string \<times> string option"

record HttpLib =
  EncodeToString :: "string \<Rightarrow> string"
  NewRequest :: "string \<Rightarrow> string \<Rightarrow> string \<Rightarrow> string + Request"
  Do :: "Request \<Rightarrow> string + Response"

text \<open>\<^verbatim>\<open>http.StatusAccepted\<close>.\<close>

definition StatusAccepted :: int where
  "StatusAccepted = 202"

definition ReadAll :: "string \<times> string option \<Rightarrow> string \<times> string option" where
  "ReadAll body = body"

definition sendRawMimeMail :: "HttpLib \<Rightarrow> string \<Rightarrow> string \<Rightarrow> string \<Rightarrow> error option" where
  "sendRawMimeMail H accessToken userID mimeMessage =
     (let url = ''https://graph.microsoft.com/v1.0/users/'' @ userID @ ''/sendMail'';
          encoded = EncodeToString H mimeMessage
      in case NewRequest H ''POST'' url encoded of
           Inl errText \<Rightarrow> Some (GoError (''NewRequestWithContext: '' @ errText))
         | Inr req0 \<Rightarrow>
             (let req = req0\<lparr>ReqHeader :=
                          ((ReqHeader req0)(''Authorization'' \<mapsto> [''Bearer '' @ accessToken]))
                            (''Content-Type'' \<mapsto> [''text/plain''])\<rparr>
              in case Do H req of
                   Inl errText \<Rightarrow> Some (GoError (''http.Do: '' @ errText))
                 | Inr resp \<Rightarrow>
                     if StatusCode resp \<noteq> StatusAccepted
                     then (case ReadAll (RespBody resp) of
                             (b, _) \<Rightarrow> Some (GoError (''sendMail failed: '' @ Status resp
                                                         @ [CHR 0x0A] @ b)))
                     else None))"

subsection \<open>Running a session\<close>

text \<open>
  The calls that the protocol server can make on a session, and the session after a
  sequence of them, starting from any session.
\<close>

datatype command =
  CmdAuth string string string
| CmdMail string
| CmdRcpt string
| CmdData "error + string"
| CmdReset
| CmdLogout

definition exec :: "MailLib \<Rightarrow> (Message \<Rightarrow> string option) \<Rightarrow> Session \<Rightarrow> command
                    \<Rightarrow> error option \<times> Session" where
  "exec L handler s c =
     (case c of
        CmdAuth identity username password \<Rightarrow> Auth s identity username password
      | CmdMail from \<Rightarrow> Mail L s from
      | CmdRcpt to \<Rightarrow> Rcpt L s to
      | CmdData r \<Rightarrow> Data L handler s r
      | CmdReset \<Rightarrow> (None, Reset s)
      | CmdLogout \<Rightarrow> Logout s)"

fun run :: "MailLib \<Rightarrow> (Message \<Rightarrow> string option) \<Rightarrow> Session \<Rightarrow> command list \<Rightarrow> Session" where
  "run L handler s [] = s"
| "run L handler s (c # cs) = run L handler (snd (exec L handler s c)) cs"

text \<open>The number of \<^verbatim>\<open>Mail\<close> calls in the sequence that return \<^verbatim>\<open>nil\<close>.\<close>

fun senderSets :: "MailLib \<Rightarrow> (Message \<Rightarrow> string option) \<Rightarrow> Session \<Rightarrow> command list \<Rightarrow> nat" where
  "senderSets L handler s [] = 0"
| "senderSets L handler s (c # cs) =
     (case c of
        CmdMail from \<Rightarrow> (if fst (Mail L s from) = None then 1 else 0)
      | _ \<Rightarrow> 0)
     + senderSets L handler (snd (exec L handler s c)) cs"

text \<open>The errors by the names of the specification.\<close>

definition isSequenceError :: "error \<Rightarrow> bool" where
  "isSequenceError e = (case e of SMTPError c _ _ \<Rightarrow> c = 503 | GoError _ \<Rightarrow> False)"

definition isMessageFormatError :: "error \<Rightarrow> bool" where
  "isMessageFormatError e =
     (case e of SMTPError c ec _ \<Rightarrow> c = 550 \<and> ec = (5, 6, 0) | GoError _ \<Rightarrow> False)"

subsection \<open>A small mail library for concrete runs\<close>

text \<open>
  A stand-in for \<^verbatim>\<open>net/mail\<close>, used only to evaluate the definitions above at concrete
  inputs: addresses are bare or in angle brackets, an address list is separated by
  commas, a message is header lines \<^verbatim>\<open>Key: value\<close> ended by CR LF, an empty line and the
  body. No theorem about all libraries depends on it.
\<close>

definition demoTrim :: "string \<Rightarrow> string" where
  "demoTrim x = rev (dropWhile (\<lambda>c. c = CHR '' '') (rev (dropWhile (\<lambda>c. c = CHR '' '') x)))"

definition demoUnbracket :: "string \<Rightarrow> string" where
  "demoUnbracket x =
     (if x \<noteq> [] \<and> hd x = CHR ''<'' \<and> last x = CHR ''>'' then butlast (tl x) else x)"

definition demoParseAddress :: "string \<Rightarrow> Address option" where
  "demoParseAddress x =
     (let a = demoUnbracket (demoTrim x)
      in if CHR ''@'' \<in> set a \<and> CHR '' '' \<notin> set a
         then Some \<lparr>Name = [], Address = a\<rparr> else None)"

fun demoSplit :: "string \<Rightarrow> string \<Rightarrow> string list" where
  "demoSplit [] cur = [rev cur]"
| "demoSplit (c # cs) cur =
     (if c = CHR '','' then rev cur # demoSplit cs [] else demoSplit cs (c # cur))"

definition demoParseAddressList :: "string \<Rightarrow> Address list option" where
  "demoParseAddressList x = those (map demoParseAddress (demoSplit x []))"

definition demoAddressString :: "Address \<Rightarrow> string" where
  "demoAddressString a = ''<'' @ Address a @ ''>''"

definition demoHeaderLine :: "string \<Rightarrow> (string \<times> string) option" where
  "demoHeaderLine line =
     (let key = takeWhile (\<lambda>c. c \<noteq> CHR '':'') line;
          rest = dropWhile (\<lambda>c. c \<noteq> CHR '':'') line
      in if key = [] \<or> rest = [] then None else Some (key, demoTrim (tl rest)))"

definition demoAddHeader :: "Header \<Rightarrow> string \<times> string \<Rightarrow> Header" where
  "demoAddHeader h kv =
     h(fst kv \<mapsto> (case h (fst kv) of None \<Rightarrow> [] | Some vs \<Rightarrow> vs) @ [snd kv])"

fun demoScan :: "string \<Rightarrow> string \<Rightarrow> Header \<Rightarrow> Message option" where
  "demoScan [] cur h = None"
| "demoScan (c # cs) cur h =
     (if c = CHR 0x0A
      then (if cur = [CHR 0x0D] then Some \<lparr>Header = h, Body = cs\<rparr>
            else (case demoHeaderLine (rev (tl cur)) of
                    None \<Rightarrow> None
                  | Some kv \<Rightarrow> demoScan cs [] (demoAddHeader h kv)))
      else demoScan cs (c # cur) h)"

definition demoReadMessage :: "string \<Rightarrow> Message option" where
  "demoReadMessage b = demoScan b [] Map.empty"

definition demoLib :: MailLib where
  "demoLib = \<lparr>ParseAddress = demoParseAddress, ParseAddressList = demoParseAddressList,
              ReadMessage = demoReadMessage, AddressString = demoAddressString\<rparr>"

text \<open>The configuration of the repository's tests and two sessions over it.\<close>

definition demoConfig :: Config where
  "demoConfig = \<lparr>SenderEmail = ''sender@example.com'', SenderPassword = ''password''\<rparr>"

definition demoAddr :: "string \<Rightarrow> Address" where
  "demoAddr a = \<lparr>Name = [], Address = a\<rparr>"

definition demoSession :: "Address option \<Rightarrow> Address list \<Rightarrow> Session" where
  "demoSession sndr rcpts =
     \<lparr>config = demoConfig, auth = True, sender = sndr, recipients = rcpts\<rparr>"

subsection \<open>The ordering invariant\<close>

definition wellSequenced :: "Session \<Rightarrow> bool" where
  "wellSequenced s = (recipients s \<noteq> [] \<longrightarrow> sender s \<noteq> None)"

subsection \<open>The refresh condition and stand-ins for the token source and the HTTP client\<close>

text \<open>
  The condition under which \<^verbatim>\<open>getCachedToken\<close> asks the token source, as the source
  writes it: the token is empty, or \<^verbatim>\<open>now > h.tokenExp-60\<close> in \<^verbatim>\<open>int64\<close> arithmetic.
\<close>

definition needsRefresh :: "GraphMailHandler \<Rightarrow> int64 \<Rightarrow> bool" where
  "needsRefresh h now = (token h = [] \<or> tokenExp h - 60 <s now)"

text \<open>A token source that answers its first request and fails afterwards.\<close>

definition demoTokenSource :: TokenSource where
  "demoTokenSource scopes n =
     (if n = 0 then Inr \<lparr>Token = ''u'', ExpiresOn = 3700\<rparr> else Inl ''unreachable'')"

text \<open>
  An HTTP client whose server answers every request with the given status and body.
\<close>

definition demoHttp :: "int \<Rightarrow> string \<Rightarrow> string \<Rightarrow> HttpLib" where
  "demoHttp code status body =
     \<lparr>EncodeToString = (\<lambda>x. x),
      NewRequest = (\<lambda>method url b.
         Inr \<lparr>Method = method, URL = url, ReqBody = b, ReqHeader = Map.empty\<rparr>),
      Do = (\<lambda>req. Inr \<lparr>StatusCode = code, Status = status, RespBody = (body, None)\<rparr>)\<rparr>"

subsection \<open>Notions used to state the reconciliation\<close>

text \<open>
  The header under \<open>key\<close> parses (by \<^verbatim>\<open>Header.AddressList\<close>) to a list that has an entry
  with the address of \<open>a\<close>.
\<close>

definition containsAddress :: "MailLib \<Rightarrow> Header \<Rightarrow> string \<Rightarrow> Address \<Rightarrow> bool" where
  "containsAddress L h key a =
     (case AddressList L h key of
        None \<Rightarrow> False
      | Some addrs \<Rightarrow> Address a \<in> Address ` set addrs)"

text \<open>
  The text of a message with the given header lines and body: one line \<^verbatim>\<open>Key: value\<close>
  per header, each ended by CR LF, an empty line, the body.
\<close>

definition wireMessage :: "(string \<times> string) list \<Rightarrow> string \<Rightarrow> string" where
  "wireMessage hs body =
     concat (map (\<lambda>(k, v). k @ '': '' @ v @ [CHR 0x0D, CHR 0x0A]) hs)
     @ [CHR 0x0D, CHR 0x0A] @ body"

text \<open>A message to \<^verbatim>\<open>a@x\<close> with the given From value and Bcc values.\<close>

definition demoMessage :: "string \<Rightarrow> string list \<Rightarrow> Message" where
  "demoMessage frm bcc =
     \<lparr>Header = [''From'' \<mapsto> [frm], ''To'' \<mapsto> [''a@x''], ''Bcc'' \<mapsto> bcc], Body = ''hi''\<rparr>"

text \<open>
  A message with the headers From \<^verbatim>\<open>s@x\<close>, To \<^verbatim>\<open>a@x\<close>, Cc \<^verbatim>\<open>c@x\<close> and the given Bcc
  values, one value for each Bcc header line.
\<close>

definition demoMessageCc :: "string list \<Rightarrow> Message" where
  "demoMessageCc bcc =
     \<lparr>Header = [''From'' \<mapsto> [''s@x''], ''To'' \<mapsto> [''a@x''], ''Cc'' \<mapsto> [''c@x''],
                ''Bcc'' \<mapsto> bcc],
      Body = ''hi''\<rparr>"

section \<open>Properties of the session\<close>

subsection \<open>What each method does to the session\<close>

lemma Mail_cases:
  "Mail L s frm = (None, s') \<Longrightarrow>
     auth s \<and> sender s = None \<and> recipients s = [] \<and>
     (\<exists>addr. ParseAddress L frm = Some addr \<and> s' = s\<lparr>sender := Some addr\<rparr>)"
  by (auto simp: Mail_def split: if_splits option.splits)

lemma Mail_error_state: "Mail L s frm = (Some e, s') \<Longrightarrow> s' = s"
  by (auto simp: Mail_def split: if_splits option.splits)

lemma Rcpt_error_state: "Rcpt L s to = (Some e, s') \<Longrightarrow> s' = s"
  by (auto simp: Rcpt_def split: if_splits option.splits)

lemma Data_state: "snd (Data L handler s r) = s"
  by (simp add: Data_def split: option.splits sum.splits)

text \<open>
  C10: when \<^verbatim>\<open>Mail\<close>, \<^verbatim>\<open>Rcpt\<close> or \<^verbatim>\<open>Data\<close> returns an error, whatever its cause, the session
  after the call (authenticated flag, sender, recipients) is the session before it.
\<close>

theorem failed_command_keeps_session:
  "(fst (Mail L s frm) \<noteq> None \<longrightarrow> snd (Mail L s frm) = s) \<and>
   (fst (Rcpt L s to) \<noteq> None \<longrightarrow> snd (Rcpt L s to) = s) \<and>
   (fst (Data L handler s r) \<noteq> None \<longrightarrow> snd (Data L handler s r) = s)"
proof (intro conjI impI)
  assume "fst (Mail L s frm) \<noteq> None"
  then obtain e where "Mail L s frm = (Some e, snd (Mail L s frm))"
    by (cases "Mail L s frm") auto
  then show "snd (Mail L s frm) = s" by (rule Mail_error_state)
next
  assume "fst (Rcpt L s to) \<noteq> None"
  then obtain e where "Rcpt L s to = (Some e, snd (Rcpt L s to))"
    by (cases "Rcpt L s to") auto
  then show "snd (Rcpt L s to) = s" by (rule Rcpt_error_state)
next
  show "snd (Data L handler s r) = s" by (rule Data_state)
qed

text \<open>
  At a session with a sender and one recipient: a second \<^verbatim>\<open>MAIL FROM\<close> (bad sequence), a
  malformed recipient, and a submission whose relay fails.
\<close>

theorem failed_command_keeps_session_witness:
  "fst (Mail demoLib (demoSession (Some (demoAddr ''s@x'')) [demoAddr ''a@x'']) ''t@x'') \<noteq> None \<and>
   snd (Mail demoLib (demoSession (Some (demoAddr ''s@x'')) [demoAddr ''a@x'']) ''t@x'')
     = demoSession (Some (demoAddr ''s@x'')) [demoAddr ''a@x''] \<and>
   fst (Rcpt demoLib (demoSession (Some (demoAddr ''s@x'')) [demoAddr ''a@x'']) ''not-an-email'')
     \<noteq> None \<and>
   snd (Rcpt demoLib (demoSession (Some (demoAddr ''s@x'')) [demoAddr ''a@x'']) ''not-an-email'')
     = demoSession (Some (demoAddr ''s@x'')) [demoAddr ''a@x''] \<and>
   fst (Data demoLib (\<lambda>m. Some ''relay down'')
          (demoSession (Some (demoAddr ''s@x'')) [demoAddr ''a@x'']) (Inr ''hello'')) \<noteq> None \<and>
   snd (Data demoLib (\<lambda>m. Some ''relay down'')
          (demoSession (Some (demoAddr ''s@x'')) [demoAddr ''a@x'']) (Inr ''hello''))
     = demoSession (Some (demoAddr ''s@x'')) [demoAddr ''a@x'']"
proof -
  let ?s = "demoSession (Some (demoAddr ''s@x'')) [demoAddr ''a@x'']"
  have m: "fst (Mail demoLib ?s ''t@x'') \<noteq> None"
    by (simp add: Mail_def demoSession_def)
  have r: "fst (Rcpt demoLib ?s ''not-an-email'') \<noteq> None"
    by (simp add: Rcpt_def demoSession_def demoLib_def demoParseAddress_def demoTrim_def
        demoUnbracket_def)
  have d: "fst (Data demoLib (\<lambda>m. Some ''relay down'') ?s (Inr ''hello'')) \<noteq> None"
    by (simp add: Data_def demoSession_def split: option.splits)
  from m r d
    failed_command_keeps_session [of demoLib ?s "''t@x''" "''not-an-email''"
      "\<lambda>m. Some ''relay down''" "Inr ''hello''"]
  show ?thesis by blast
qed

subsection \<open>Command order\<close>

lemma exec_wellSequenced:
  "wellSequenced s \<Longrightarrow> wellSequenced (snd (exec L handler s c))"
  by (cases c)
     (auto simp: exec_def wellSequenced_def Auth_def Mail_def Rcpt_def Data_state Reset_def
                 Logout_def Let_def split: option.splits)

lemma run_wellSequenced:
  "wellSequenced s \<Longrightarrow> wellSequenced (run L handler s cs)"
  by (induction cs arbitrary: s) (simp_all add: exec_wellSequenced)

lemma exec_keeps_sender:
  "sender s \<noteq> None \<Longrightarrow> c \<noteq> CmdReset \<Longrightarrow> sender (snd (exec L handler s c)) \<noteq> None"
  by (cases c)
     (auto simp: exec_def Auth_def Mail_def Rcpt_def Data_state Logout_def Let_def
           split: option.splits)

text \<open>Once a sender is stored, no \<^verbatim>\<open>Mail\<close> call succeeds until a reset.\<close>

lemma senderSets_after_sender:
  "sender s \<noteq> None \<Longrightarrow> CmdReset \<notin> set cs \<Longrightarrow> senderSets L handler s cs = 0"
proof (induction cs arbitrary: s)
  case Nil
  then show ?case by simp
next
  case (Cons c cs)
  from Cons.prems have "sender s \<noteq> None" and "c \<noteq> CmdReset" by auto
  then have keep: "sender (snd (exec L handler s c)) \<noteq> None"
    by (rule exec_keeps_sender)
  have here: "(case c of CmdMail frm \<Rightarrow> (if fst (Mail L s frm) = None then 1 else 0)
               | _ \<Rightarrow> 0) = (0::nat)"
    using Cons.prems(1) by (cases c) (auto simp: Mail_def)
  from Cons.IH [OF keep] Cons.prems(2) here show ?case by simp
qed

lemma senderSets_le_1:
  "CmdReset \<notin> set cs \<Longrightarrow> senderSets L handler s cs \<le> 1"
proof (induction cs arbitrary: s)
  case Nil
  then show ?case by simp
next
  case (Cons c cs)
  show ?case
  proof (cases "\<exists>frm. c = CmdMail frm \<and> fst (Mail L s frm) = None")
    case True
    then obtain frm where c: "c = CmdMail frm" and ok: "fst (Mail L s frm) = None" by blast
    then have "sender (snd (Mail L s frm)) \<noteq> None"
      using Mail_cases [of L s frm "snd (Mail L s frm)"] by (cases "Mail L s frm") auto
    then have "senderSets L handler (snd (exec L handler s c)) cs = 0"
      using Cons.prems c by (intro senderSets_after_sender) (auto simp: exec_def)
    then show ?thesis using c ok by simp
  next
    case False
    then have "(case c of CmdMail frm \<Rightarrow> (if fst (Mail L s frm) = None then 1 else 0)
                | _ \<Rightarrow> 0) = (0::nat)"
      by (cases c) auto
    moreover have "senderSets L handler (snd (exec L handler s c)) cs \<le> 1"
      using Cons.prems by (intro Cons.IH) simp
    ultimately show ?thesis by simp
  qed
qed

lemma Mail_out_of_sequence:
  "auth s \<Longrightarrow> sender s \<noteq> None \<or> recipients s \<noteq> [] \<Longrightarrow>
   \<exists>e. Mail L s frm = (Some e, s) \<and> isSequenceError e"
  by (auto simp: Mail_def isSequenceError_def newSMTPError_def)

lemma Rcpt_out_of_sequence:
  "auth s \<Longrightarrow> sender s = None \<Longrightarrow> \<exists>e. Rcpt L s to = (Some e, s) \<and> isSequenceError e"
  by (auto simp: Rcpt_def isSequenceError_def newSMTPError_def)

text \<open>
  C6: on an authenticated session \<^verbatim>\<open>Mail\<close> fails with the 503 sequence error when a sender
  is stored or a recipient has been added, and \<^verbatim>\<open>Rcpt\<close> fails with it when no sender is
  stored. Hence every session reached from a new one by any calls has recipients only
  if it has a sender, and between two resets at most one \<^verbatim>\<open>Mail\<close> call succeeds.
\<close>

theorem command_order_enforced:
  "(auth s \<and> (sender s \<noteq> None \<or> recipients s \<noteq> [])
      \<longrightarrow> (\<exists>e. Mail L s frm = (Some e, s) \<and> isSequenceError e)) \<and>
   (auth s \<and> sender s = None
      \<longrightarrow> (\<exists>e. Rcpt L s to = (Some e, s) \<and> isSequenceError e)) \<and>
   wellSequenced (run L handler (NewSession cfg) cs) \<and>
   (CmdReset \<notin> set cs' \<longrightarrow> senderSets L handler s0 cs' \<le> 1)"
proof (intro conjI impI)
  assume "auth s \<and> (sender s \<noteq> None \<or> recipients s \<noteq> [])"
  then show "\<exists>e. Mail L s frm = (Some e, s) \<and> isSequenceError e"
    using Mail_out_of_sequence by blast
next
  assume "auth s \<and> sender s = None"
  then show "\<exists>e. Rcpt L s to = (Some e, s) \<and> isSequenceError e"
    using Rcpt_out_of_sequence by blast
next
  have "wellSequenced (NewSession cfg)"
    by (simp add: wellSequenced_def NewSession_def)
  then show "wellSequenced (run L handler (NewSession cfg) cs)"
    by (rule run_wellSequenced)
next
  assume "CmdReset \<notin> set cs'"
  then show "senderSets L handler s0 cs' \<le> 1" by (rule senderSets_le_1)
qed

text \<open>
  A second \<^verbatim>\<open>MAIL FROM\<close>, a \<^verbatim>\<open>RCPT TO\<close> before any \<^verbatim>\<open>MAIL FROM\<close>, and the dialogue AUTH,
  MAIL, RCPT, MAIL from a new session: the second MAIL changes nothing.
\<close>

theorem command_order_enforced_witness:
  "(\<exists>e. Mail demoLib (demoSession (Some (demoAddr ''s@x'')) []) ''t@x''
          = (Some e, demoSession (Some (demoAddr ''s@x'')) []) \<and> isSequenceError e) \<and>
   (\<exists>e. Rcpt demoLib (demoSession None []) ''a@x'' = (Some e, demoSession None [])
         \<and> isSequenceError e) \<and>
   run demoLib (\<lambda>m. None) (NewSession demoConfig)
     [CmdAuth [] ''sender@example.com'' ''password'', CmdMail ''s@x'', CmdRcpt ''a@x'',
      CmdMail ''t@x'']
     = demoSession (Some (demoAddr ''s@x'')) [demoAddr ''a@x''] \<and>
   wellSequenced (run demoLib (\<lambda>m. None) (NewSession demoConfig)
     [CmdAuth [] ''sender@example.com'' ''password'', CmdMail ''s@x'', CmdRcpt ''a@x'',
      CmdMail ''t@x'']) \<and>
   CmdReset \<notin> set [CmdAuth [] ''sender@example.com'' ''password'', CmdMail ''s@x'',
                    CmdRcpt ''a@x'', CmdMail ''t@x''] \<and>
   senderSets demoLib (\<lambda>m. None) (NewSession demoConfig)
     [CmdAuth [] ''sender@example.com'' ''password'', CmdMail ''s@x'', CmdRcpt ''a@x'',
      CmdMail ''t@x''] \<le> 1"
proof -
  let ?cs = "[CmdAuth [] ''sender@example.com'' ''password'', CmdMail ''s@x'', CmdRcpt ''a@x'',
              CmdMail ''t@x'']"
  have a: "auth (demoSession (Some (demoAddr ''s@x'')) [])"
    and b: "sender (demoSession (Some (demoAddr ''s@x'')) []) \<noteq> None"
    and c: "auth (demoSession None [])" and d: "sender (demoSession None []) = None"
    by (simp_all add: demoSession_def)
  have e: "CmdReset \<notin> set ?cs" by simp
  have r: "run demoLib (\<lambda>m. None) (NewSession demoConfig) ?cs
             = demoSession (Some (demoAddr ''s@x'')) [demoAddr ''a@x'']"
    by (simp add: exec_def Auth_def Mail_def Rcpt_def NewSession_def demoConfig_def
        ConstantTimeCompare_def demoLib_def demoParseAddress_def demoTrim_def
        demoUnbracket_def demoSession_def demoAddr_def)
  from a b c d e r
    command_order_enforced [of "demoSession (Some (demoAddr ''s@x'')) []" demoLib "''t@x''",
      THEN conjunct1]
    command_order_enforced [of "demoSession None []" demoLib _ "''a@x''",
      THEN conjunct2, THEN conjunct1]
    command_order_enforced [of _ demoLib _ _ "\<lambda>m. None" demoConfig ?cs ?cs
      "NewSession demoConfig", THEN conjunct2, THEN conjunct2]
  show ?thesis by simp
qed

subsection \<open>Authentication\<close>

lemma Auth_match:
  "username = SenderEmail (config s) \<Longrightarrow> password = SenderPassword (config s) \<Longrightarrow>
   Auth s identity username password = (None, s\<lparr>auth := True\<rparr>)"
  by (simp add: Auth_def ConstantTimeCompare_def)

lemma Auth_mismatch:
  "\<not> (username = SenderEmail (config s) \<and> password = SenderPassword (config s)) \<Longrightarrow>
   Auth s identity username password = (Some (GoError ''invalid username or password''), s)"
  by (auto simp: Auth_def ConstantTimeCompare_def)

text \<open>
  C9, as the code has it: the callback succeeds exactly when the username is the
  configured address and the password the configured secret, whatever the identity;
  success sets the flag, and a mismatch returns the error \<^verbatim>\<open>invalid username or password\<close>
  and leaves the session, with its flag, as it was. So a session that was not
  authenticated stays so, and one that was authenticated stays authenticated.
\<close>

theorem auth_checks_credentials:
  "(fst (Auth s identity username password) = None
      \<longleftrightarrow> username = SenderEmail (config s) \<and> password = SenderPassword (config s)) \<and>
   (username = SenderEmail (config s) \<and> password = SenderPassword (config s)
      \<longrightarrow> Auth s identity username password = (None, s\<lparr>auth := True\<rparr>)) \<and>
   (\<not> (username = SenderEmail (config s) \<and> password = SenderPassword (config s))
      \<longrightarrow> Auth s identity username password
            = (Some (GoError ''invalid username or password''), s))"
proof (cases "username = SenderEmail (config s) \<and> password = SenderPassword (config s)")
  case True
  then have "Auth s identity username password = (None, s\<lparr>auth := True\<rparr>)"
    by (simp add: Auth_match)
  with True show ?thesis by auto
next
  case False
  then have "Auth s identity username password
               = (Some (GoError ''invalid username or password''), s)"
    by (rule Auth_mismatch)
  with False show ?thesis by auto
qed

text \<open>
  The scenario of the tests: on a new session the configured credentials authenticate,
  and a wrong password is refused and leaves the session as it was.
\<close>

theorem auth_checks_credentials_witness:
  "Auth (NewSession demoConfig) [] ''sender@example.com'' ''password''
     = (None, (NewSession demoConfig)\<lparr>auth := True\<rparr>) \<and>
   Auth (NewSession demoConfig) [] ''sender@example.com'' ''wrong''
     = (Some (GoError ''invalid username or password''), NewSession demoConfig) \<and>
   auth (NewSession demoConfig) = False"
proof -
  have ok: "''sender@example.com'' = SenderEmail (config (NewSession demoConfig)) \<and>
            ''password'' = SenderPassword (config (NewSession demoConfig))"
    by (simp add: NewSession_def demoConfig_def)
  have bad: "\<not> (''sender@example.com'' = SenderEmail (config (NewSession demoConfig)) \<and>
                ''wrong'' = SenderPassword (config (NewSession demoConfig)))"
    by (simp add: NewSession_def demoConfig_def)
  have new: "auth (NewSession demoConfig) = False"
    by (simp add: NewSession_def)
  from ok bad new
    auth_checks_credentials [of "NewSession demoConfig" "[]" "''sender@example.com''"
      "''password''"]
    auth_checks_credentials [of "NewSession demoConfig" "[]" "''sender@example.com''"
      "''wrong''"]
  show ?thesis by blast
qed

text \<open>
  C9 as stated fails on a session that is already authenticated: a wrong password is
  refused, and the flag is still set after the call.
\<close>

theorem auth_mismatch_counterexample:
  "fst (Auth (demoSession None []) [] ''sender@example.com'' ''wrong'')
     = Some (GoError ''invalid username or password'') \<and>
   auth (snd (Auth (demoSession None []) [] ''sender@example.com'' ''wrong'')) = True"
  by (simp add: Auth_def ConstantTimeCompare_def demoSession_def demoConfig_def)

subsection \<open>After a submission\<close>

lemma Data_success:
  "fst (Data L handler s r) = None \<Longrightarrow> auth s \<and> sender s \<noteq> None \<and> recipients s \<noteq> []"
  by (auto simp: Data_def split: if_splits option.splits sum.splits)

text \<open>
  C1, as the code has it: \<^verbatim>\<open>Data\<close> never assigns to the session. After a submission that
  the relay accepted the session still holds its sender and its recipients (it had to
  have both, and to be authenticated), so a following \<^verbatim>\<open>Mail\<close> is out of sequence. The
  session returns to the state with no sender and no recipients through \<^verbatim>\<open>Reset\<close>, which
  leaves the authenticated flag alone.
\<close>

theorem data_keeps_envelope_reset_clears:
  "(fst (Data L handler s r) = None
      \<longrightarrow> snd (Data L handler s r) = s \<and> auth s \<and> sender s \<noteq> None \<and> recipients s \<noteq> [] \<and>
          (\<exists>e. Mail L (snd (Data L handler s r)) frm = (Some e, s) \<and> isSequenceError e)) \<and>
   auth (Reset s) = auth s \<and> sender (Reset s) = None \<and> recipients (Reset s) = [] \<and>
   config (Reset s) = config s"
proof (intro conjI impI)
  assume ok: "fst (Data L handler s r) = None"
  show same: "snd (Data L handler s r) = s" by (rule Data_state)
  from ok show a: "auth s" and b: "sender s \<noteq> None" and "recipients s \<noteq> []"
    using Data_success by blast+
  from a b show "\<exists>e. Mail L (snd (Data L handler s r)) frm = (Some e, s) \<and> isSequenceError e"
    unfolding same by (intro Mail_out_of_sequence) simp_all
qed (simp_all add: Reset_def)

text \<open>
  A submission of \<^verbatim>\<open>hello\<close> that the relay accepts: the session is unchanged, the next
  \<^verbatim>\<open>MAIL FROM\<close> is refused, and a reset clears the envelope.
\<close>

theorem data_keeps_envelope_reset_clears_witness:
  "fst (Data demoLib (\<lambda>m. None) (demoSession (Some (demoAddr ''s@x'')) [demoAddr ''a@x''])
          (Inr ''hello'')) = None \<and>
   snd (Data demoLib (\<lambda>m. None) (demoSession (Some (demoAddr ''s@x'')) [demoAddr ''a@x''])
          (Inr ''hello'')) = demoSession (Some (demoAddr ''s@x'')) [demoAddr ''a@x''] \<and>
   (\<exists>e. Mail demoLib
           (snd (Data demoLib (\<lambda>m. None)
                   (demoSession (Some (demoAddr ''s@x'')) [demoAddr ''a@x'']) (Inr ''hello'')))
           ''t@x''
         = (Some e, demoSession (Some (demoAddr ''s@x'')) [demoAddr ''a@x''])
         \<and> isSequenceError e) \<and>
   Reset (demoSession (Some (demoAddr ''s@x'')) [demoAddr ''a@x'']) = demoSession None []"
proof -
  let ?s = "demoSession (Some (demoAddr ''s@x'')) [demoAddr ''a@x'']"
  have p: "parseMessage demoLib (demoAddr ''s@x'') [demoAddr ''a@x''] ''hello'' \<noteq> None"
    by (simp add: parseMessage_def demoLib_def demoReadMessage_def fallbackBytes_def
        demoAddressString_def demoAddr_def demoHeaderLine_def demoAddHeader_def demoTrim_def)
  have ok: "fst (Data demoLib (\<lambda>m. None) ?s (Inr ''hello'')) = None"
    using p by (auto simp: Data_def demoSession_def)
  have rs: "Reset ?s = demoSession None []"
    by (simp add: Reset_def demoSession_def)
  from ok rs
    data_keeps_envelope_reset_clears [of demoLib "\<lambda>m. None" ?s "Inr ''hello''" "''t@x''"]
  show ?thesis by blast
qed

text \<open>
  C1 as stated fails: after that accepted submission the sender is still stored and the
  recipient list still has its entry.
\<close>

theorem data_clears_envelope_counterexample:
  "fst (Data demoLib (\<lambda>m. None) (demoSession (Some (demoAddr ''s@x'')) [demoAddr ''a@x''])
          (Inr ''hello'')) = None \<and>
   sender (snd (Data demoLib (\<lambda>m. None)
                  (demoSession (Some (demoAddr ''s@x'')) [demoAddr ''a@x'']) (Inr ''hello'')))
     = Some (demoAddr ''s@x'') \<and>
   recipients (snd (Data demoLib (\<lambda>m. None)
                      (demoSession (Some (demoAddr ''s@x'')) [demoAddr ''a@x''])
                      (Inr ''hello'')))
     = [demoAddr ''a@x'']"
proof -
  have p: "parseMessage demoLib (demoAddr ''s@x'') [demoAddr ''a@x''] ''hello'' \<noteq> None"
    by (simp add: parseMessage_def demoLib_def demoReadMessage_def fallbackBytes_def
        demoAddressString_def demoAddr_def demoHeaderLine_def demoAddHeader_def demoTrim_def)
  then show ?thesis
    by (auto simp: Data_def demoSession_def)
qed

section \<open>Properties of the token cache\<close>

lemma getCachedToken_fresh:
  "\<not> needsRefresh h now \<Longrightarrow> getCachedToken src now (h, calls) = ((token h, None), h, calls)"
  by (simp add: getCachedToken_def needsRefresh_def)

lemma getCachedToken_refreshed:
  "needsRefresh h now \<Longrightarrow> src [''https://graph.microsoft.com/.default''] calls = Inr tok \<Longrightarrow>
   getCachedToken src now (h, calls)
     = ((Token tok, None), h\<lparr>token := Token tok, tokenExp := ExpiresOn tok\<rparr>, Suc calls)"
  by (simp add: getCachedToken_def needsRefresh_def Let_def)

lemma getCachedToken_failed:
  "needsRefresh h now \<Longrightarrow> src [''https://graph.microsoft.com/.default''] calls = Inl errText \<Longrightarrow>
   getCachedToken src now (h, calls)
     = (([], Some (GoError (''GetToken: '' @ errText))), h, Suc calls)"
  by (simp add: getCachedToken_def needsRefresh_def)

lemma getCachedToken_calls:
  "snd (snd (getCachedToken src now (h, calls)))
     = (if needsRefresh h now then Suc calls else calls)"
  by (simp add: getCachedToken_def needsRefresh_def Let_def split: sum.splits)

text \<open>Without wrap-around the \<^verbatim>\<open>int64\<close> subtraction is the subtraction of integers.\<close>

lemma sint_minus_60:
  fixes x :: int64
  assumes "- (2 ^ 63) + 60 \<le> sint x"
  shows "sint (x - 60) = sint x - 60"
  using assms sint_lt [of x] sint_ge [of x]
  by (simp add: sint_word_ariths signed_take_bit_int_eq_self)

lemma needsRefresh_int:
  "- (2 ^ 63) + 60 \<le> sint (tokenExp h) \<Longrightarrow>
   needsRefresh h now \<longleftrightarrow> token h = [] \<or> sint (tokenExp h) - 60 < sint now"
  by (simp add: needsRefresh_def word_sless_alt sint_minus_60)

lemma needsRefresh_later:
  "needsRefresh h now \<Longrightarrow> now \<le>s now' \<Longrightarrow> needsRefresh h now'"
  by (auto simp: needsRefresh_def word_sless_alt word_sle_eq)

text \<open>
  C3, as the code has it: \<^verbatim>\<open>getCachedToken\<close> sends a request to the token source exactly
  when the cached token is empty or \<^verbatim>\<open>now > tokenExp - 60\<close>; unless \<^verbatim>\<open>tokenExp\<close> is within 60
  of the least \<^verbatim>\<open>int64\<close> this is the comparison of the integers, so the cached token is
  used up to and including the instant \<^verbatim>\<open>tokenExp - 60\<close>. When no request is sent the
  cached token is returned and nothing changes; when the request succeeds the token and
  the expiry are overwritten with the answer and the new token is returned.
\<close>

theorem token_refresh_condition:
  "snd (snd (getCachedToken src now (h, calls)))
     = (if needsRefresh h now then Suc calls else calls) \<and>
   (\<not> needsRefresh h now
      \<longrightarrow> getCachedToken src now (h, calls) = ((token h, None), h, calls)) \<and>
   (needsRefresh h now \<and> src [''https://graph.microsoft.com/.default''] calls = Inr tok
      \<longrightarrow> getCachedToken src now (h, calls)
            = ((Token tok, None), h\<lparr>token := Token tok, tokenExp := ExpiresOn tok\<rparr>,
               Suc calls)) \<and>
   (- (2 ^ 63) + 60 \<le> sint (tokenExp h)
      \<longrightarrow> (needsRefresh h now \<longleftrightarrow> token h = [] \<or> sint (tokenExp h) - 60 < sint now))"
  using getCachedToken_calls [of src now h calls] getCachedToken_fresh [of h now src calls]
    getCachedToken_refreshed [of h now src calls tok] needsRefresh_int [of h now]
  by blast

text \<open>
  A token that expires at 100: at clock 40 it is returned from the cache, at clock 41 it
  is replaced by the answer of the token source.
\<close>

theorem token_refresh_condition_witness:
  "\<not> needsRefresh \<lparr>token = ''t'', tokenExp = 100\<rparr> 40 \<and>
   getCachedToken demoTokenSource 40 (\<lparr>token = ''t'', tokenExp = 100\<rparr>, 0)
     = ((''t'', None), \<lparr>token = ''t'', tokenExp = 100\<rparr>, 0) \<and>
   needsRefresh \<lparr>token = ''t'', tokenExp = 100\<rparr> 41 \<and>
   getCachedToken demoTokenSource 41 (\<lparr>token = ''t'', tokenExp = 100\<rparr>, 0)
     = ((''u'', None), \<lparr>token = ''u'', tokenExp = 3700\<rparr>, Suc 0) \<and>
   sint (100 :: int64) - 60 < sint (41 :: int64)"
proof -
  let ?h = "\<lparr>token = ''t'', tokenExp = 100\<rparr>"
  have a: "\<not> needsRefresh ?h 40" and b: "needsRefresh ?h 41"
    by (simp_all add: needsRefresh_def)
  have c: "demoTokenSource [''https://graph.microsoft.com/.default''] 0
             = Inr \<lparr>Token = ''u'', ExpiresOn = 3700\<rparr>"
    by (simp add: demoTokenSource_def)
  have d: "- (2 ^ 63) + 60 \<le> sint (tokenExp ?h)" by simp
  from a b c d
    token_refresh_condition [of demoTokenSource 40 ?h 0]
    token_refresh_condition [of demoTokenSource 41 ?h 0 "\<lparr>Token = ''u'', ExpiresOn = 3700\<rparr>"]
  show ?thesis by simp
qed

text \<open>
  C3 as stated fails at the instant \<^verbatim>\<open>tokenExp - 60\<close>: there \<^verbatim>\<open>now < tokenExp - 60\<close> is false,
  and the cached token is returned without a request to the token source.
\<close>

theorem token_valid_boundary_counterexample:
  "\<not> (sint (40 :: int64) < sint (100 :: int64) - 60) \<and>
   getCachedToken demoTokenSource 40 (\<lparr>token = ''t'', tokenExp = 100\<rparr>, 0)
     = ((''t'', None), \<lparr>token = ''t'', tokenExp = 100\<rparr>, 0)"
  by (simp add: getCachedToken_def)

text \<open>
  C8: when the token source answers a request with a failure, \<^verbatim>\<open>getCachedToken\<close> returns
  that error (under the prefix \<^verbatim>\<open>GetToken: \<close>) with an empty token and leaves the cached
  token and expiry as they were; the next call, at the same or any later clock value,
  sends a request to the token source again.
\<close>

theorem token_failure_keeps_cache:
  "needsRefresh h now \<and> src [''https://graph.microsoft.com/.default''] calls = Inl errText \<and>
   now \<le>s now'
   \<longrightarrow> getCachedToken src now (h, calls)
         = (([], Some (GoError (''GetToken: '' @ errText))), h, Suc calls) \<and>
       needsRefresh (fst (snd (getCachedToken src now (h, calls)))) now' \<and>
       snd (snd (getCachedToken src' now' (snd (getCachedToken src now (h, calls)))))
         = Suc (Suc calls)"
proof (intro impI)
  assume asm: "needsRefresh h now \<and>
    src [''https://graph.microsoft.com/.default''] calls = Inl errText \<and> now \<le>s now'"
  then have first: "getCachedToken src now (h, calls)
                      = (([], Some (GoError (''GetToken: '' @ errText))), h, Suc calls)"
    by (simp add: getCachedToken_failed)
  from asm have again: "needsRefresh h now'"
    using needsRefresh_later by blast
  then have "snd (snd (getCachedToken src' now' (h, Suc calls))) = Suc (Suc calls)"
    by (simp add: getCachedToken_calls)
  with first again
  show "getCachedToken src now (h, calls)
          = (([], Some (GoError (''GetToken: '' @ errText))), h, Suc calls) \<and>
        needsRefresh (fst (snd (getCachedToken src now (h, calls)))) now' \<and>
        snd (snd (getCachedToken src' now' (snd (getCachedToken src now (h, calls)))))
          = Suc (Suc calls)"
    by simp
qed

text \<open>
  A handler with the stale token of the counterexample above and a token source that
  has answered once and now fails: two calls at clock 1000 send two requests and leave
  the cache alone.
\<close>

theorem token_failure_keeps_cache_witness:
  "getCachedToken demoTokenSource 1000 (\<lparr>token = ''t'', tokenExp = 100\<rparr>, 1)
     = (([], Some (GoError ''GetToken: unreachable'')), \<lparr>token = ''t'', tokenExp = 100\<rparr>, 2) \<and>
   getCachedToken demoTokenSource 1000
       (snd (getCachedToken demoTokenSource 1000 (\<lparr>token = ''t'', tokenExp = 100\<rparr>, 1)))
     = (([], Some (GoError ''GetToken: unreachable'')), \<lparr>token = ''t'', tokenExp = 100\<rparr>, 3)"
proof -
  let ?h = "\<lparr>token = ''t'', tokenExp = 100\<rparr>"
  have a: "needsRefresh ?h 1000" by (simp add: needsRefresh_def)
  have b: "demoTokenSource [''https://graph.microsoft.com/.default''] 1 = Inl ''unreachable''"
    by (simp add: demoTokenSource_def)
  have c: "(1000 :: int64) \<le>s 1000" by simp
  have d: "demoTokenSource [''https://graph.microsoft.com/.default''] 2 = Inl ''unreachable''"
    by (simp add: demoTokenSource_def)
  from a b c token_failure_keeps_cache [of ?h 1000 demoTokenSource 1 "''unreachable''" 1000]
  have first: "getCachedToken demoTokenSource 1000 (?h, 1)
                 = (([], Some (GoError ''GetToken: unreachable'')), ?h, 2)"
    by simp
  have second: "getCachedToken demoTokenSource 1000 (?h, 2)
                  = (([], Some (GoError ''GetToken: unreachable'')), ?h, 3)"
    using a d by (simp add: getCachedToken_failed)
  from first second show ?thesis by simp
qed

section \<open>Properties of the relay call\<close>

lemma sendRawMimeMail_cases:
  "sendRawMimeMail H accessToken userID mimeMessage =
     (case NewRequest H ''POST''
             (''https://graph.microsoft.com/v1.0/users/'' @ userID @ ''/sendMail'')
             (EncodeToString H mimeMessage) of
        Inl errText \<Rightarrow> Some (GoError (''NewRequestWithContext: '' @ errText))
      | Inr req0 \<Rightarrow>
          (case Do H (req0\<lparr>ReqHeader :=
                        ((ReqHeader req0)(''Authorization'' \<mapsto> [''Bearer '' @ accessToken]))
                          (''Content-Type'' \<mapsto> [''text/plain''])\<rparr>) of
             Inl errText \<Rightarrow> Some (GoError (''http.Do: '' @ errText))
           | Inr resp \<Rightarrow>
               if StatusCode resp = 202 then None
               else Some (GoError (''sendMail failed: '' @ Status resp @ [CHR 0x0A]
                                    @ fst (RespBody resp)))))"
  by (simp add: sendRawMimeMail_def Let_def StatusAccepted_def ReadAll_def
      split: sum.splits prod.splits)

lemma demoHttp_send:
  "sendRawMimeMail (demoHttp code status body) tok uid mime =
     (if code = 202 then None
      else Some (GoError (''sendMail failed: '' @ status @ [CHR 0x0A] @ body)))"
  by (simp add: sendRawMimeMail_cases demoHttp_def)

text \<open>
  C5, as the code has it: \<^verbatim>\<open>sendRawMimeMail\<close> returns \<^verbatim>\<open>nil\<close> exactly when the request could
  be built, the client returned a response, and the status code of the response is 202
  (\<^verbatim>\<open>http.StatusAccepted\<close>). For a response with any other status code the error is
  \<^verbatim>\<open>sendMail failed: \<close> followed by the status text, a line feed, and all the bytes that
  reading the response body gave: the read has no bound.
\<close>

theorem send_succeeds_iff_accepted:
  "(sendRawMimeMail H accessToken userID mimeMessage = None \<longleftrightarrow>
      (\<exists>req0 resp.
         NewRequest H ''POST''
           (''https://graph.microsoft.com/v1.0/users/'' @ userID @ ''/sendMail'')
           (EncodeToString H mimeMessage) = Inr req0 \<and>
         Do H (req0\<lparr>ReqHeader :=
                  ((ReqHeader req0)(''Authorization'' \<mapsto> [''Bearer '' @ accessToken]))
                    (''Content-Type'' \<mapsto> [''text/plain''])\<rparr>) = Inr resp \<and>
         StatusCode resp = StatusAccepted)) \<and>
   (NewRequest H ''POST''
      (''https://graph.microsoft.com/v1.0/users/'' @ userID @ ''/sendMail'')
      (EncodeToString H mimeMessage) = Inr req \<and>
    Do H (req\<lparr>ReqHeader :=
             ((ReqHeader req)(''Authorization'' \<mapsto> [''Bearer '' @ accessToken]))
               (''Content-Type'' \<mapsto> [''text/plain''])\<rparr>) = Inr r \<and>
    StatusCode r \<noteq> StatusAccepted
    \<longrightarrow> sendRawMimeMail H accessToken userID mimeMessage
          = Some (GoError (''sendMail failed: '' @ Status r @ [CHR 0x0A] @ fst (RespBody r)))) \<and>
   StatusAccepted = 202"
  by (auto simp: sendRawMimeMail_cases StatusAccepted_def split: sum.splits)

text \<open>
  A server that answers 202, and one that answers 500 with the body \<^verbatim>\<open>quota\<close>.
\<close>

theorem send_succeeds_iff_accepted_witness:
  "sendRawMimeMail (demoHttp 202 ''202 Accepted'' []) ''tok'' ''sender@example.com'' ''m'' = None \<and>
   sendRawMimeMail (demoHttp 500 ''500 Internal Server Error'' ''quota'') ''tok''
       ''sender@example.com'' ''m''
     = Some (GoError (''sendMail failed: 500 Internal Server Error'' @ [CHR 0x0A] @ ''quota''))"
proof -
  let ?url = "''https://graph.microsoft.com/v1.0/users/'' @ ''sender@example.com'' @ ''/sendMail''"
  let ?req = "\<lparr>Method = ''POST'', URL = ?url, ReqBody = ''m'', ReqHeader = Map.empty\<rparr>"
  let ?ok = "demoHttp 202 ''202 Accepted'' []"
  let ?ko = "demoHttp 500 ''500 Internal Server Error'' ''quota''"
  have n1: "NewRequest ?ok ''POST'' ?url (EncodeToString ?ok ''m'') = Inr ?req"
    and n2: "NewRequest ?ko ''POST'' ?url (EncodeToString ?ko ''m'') = Inr ?req"
    by (simp_all add: demoHttp_def)
  have d1: "Do ?ok (?req\<lparr>ReqHeader :=
                      ((ReqHeader ?req)(''Authorization'' \<mapsto> [''Bearer '' @ ''tok'']))
                        (''Content-Type'' \<mapsto> [''text/plain''])\<rparr>)
              = Inr \<lparr>StatusCode = 202, Status = ''202 Accepted'', RespBody = ([], None)\<rparr>"
    and d2: "Do ?ko (?req\<lparr>ReqHeader :=
                      ((ReqHeader ?req)(''Authorization'' \<mapsto> [''Bearer '' @ ''tok'']))
                        (''Content-Type'' \<mapsto> [''text/plain''])\<rparr>)
              = Inr \<lparr>StatusCode = 500, Status = ''500 Internal Server Error'',
                     RespBody = (''quota'', None)\<rparr>"
    by (simp_all add: demoHttp_def)
  have s1: "StatusCode \<lparr>StatusCode = 202, Status = ''202 Accepted'', RespBody = ([], None)\<rparr>
              = StatusAccepted"
    and s2: "StatusCode \<lparr>StatusCode = 500, Status = ''500 Internal Server Error'',
                         RespBody = (''quota'', None)\<rparr> \<noteq> StatusAccepted"
    by (simp_all add: StatusAccepted_def)
  from n1 d1 s1
  have "sendRawMimeMail ?ok ''tok'' ''sender@example.com'' ''m'' = None"
    using send_succeeds_iff_accepted [of ?ok "''tok''" "''sender@example.com''" "''m''",
        THEN conjunct1]
    by blast
  moreover from n2 d2 s2
  have "sendRawMimeMail ?ko ''tok'' ''sender@example.com'' ''m''
          = Some (GoError (''sendMail failed: 500 Internal Server Error'' @ [CHR 0x0A] @ ''quota''))"
    using send_succeeds_iff_accepted [of ?ko "''tok''" "''sender@example.com''" "''m''" ?req
        "\<lparr>StatusCode = 500, Status = ''500 Internal Server Error'',
          RespBody = (''quota'', None)\<rparr>", THEN conjunct2, THEN conjunct1]
    by simp
  ultimately show ?thesis by blast
qed

text \<open>
  C5 as stated fails in its bound: no number bounds the part of the response body that
  the error carries. Whatever the bound, a server answering 500 with a longer body gets
  all of it into the error.
\<close>

theorem send_error_body_unbounded_counterexample:
  "\<not> (\<exists>N. \<forall>body. \<exists>carried. length carried \<le> N \<and>
         sendRawMimeMail (demoHttp 500 ''500 Internal Server Error'' body) ''tok''
           ''sender@example.com'' ''m''
         = Some (GoError (''sendMail failed: 500 Internal Server Error'' @ [CHR 0x0A]
                           @ carried)))"
proof
  assume "\<exists>N. \<forall>body. \<exists>carried. length carried \<le> N \<and>
         sendRawMimeMail (demoHttp 500 ''500 Internal Server Error'' body) ''tok''
           ''sender@example.com'' ''m''
         = Some (GoError (''sendMail failed: 500 Internal Server Error'' @ [CHR 0x0A]
                           @ carried))"
  then obtain N where bound: "\<forall>body. \<exists>carried. length carried \<le> N \<and>
         sendRawMimeMail (demoHttp 500 ''500 Internal Server Error'' body) ''tok''
           ''sender@example.com'' ''m''
         = Some (GoError (''sendMail failed: 500 Internal Server Error'' @ [CHR 0x0A]
                           @ carried))"
    by blast
  from bound [rule_format, of "replicate (Suc N) (CHR ''x'')"]
  obtain carried where short: "length carried \<le> N"
    and "sendRawMimeMail
           (demoHttp 500 ''500 Internal Server Error'' (replicate (Suc N) (CHR ''x'')))
           ''tok'' ''sender@example.com'' ''m''
         = Some (GoError (''sendMail failed: 500 Internal Server Error'' @ [CHR 0x0A]
                           @ carried))"
    by blast
  then have "carried = replicate (Suc N) (CHR ''x'')"
    by (simp add: demoHttp_send)
  with short show False by simp
qed

section \<open>Properties of the reconciliation\<close>

lemma AddressList_cong: "h key = h' key \<Longrightarrow> AddressList L h key = AddressList L h' key"
  by (simp add: AddressList_def Get_def)

lemma containsAddress_cong:
  "h key = h' key \<Longrightarrow> containsAddress L h key a = containsAddress L h' key a"
  by (simp add: containsAddress_def AddressList_cong [of h key h'])

lemma patchBcc_other: "key \<noteq> ''Bcc'' \<Longrightarrow> Header (patchBcc L rcpts msg) key = Header msg key"
  by (simp add: patchBcc_def Let_def)

lemma patchBcc_Body: "Body (patchBcc L rcpts msg) = Body msg"
  by (simp add: patchBcc_def Let_def)

lemma patchFrom_other: "key \<noteq> ''From'' \<Longrightarrow> Header (patchFrom L sndr msg) key = Header msg key"
  by (simp add: patchFrom_def Let_def split: option.splits)

lemma patchFrom_Body: "Body (patchFrom L sndr msg) = Body msg"
  by (simp add: patchFrom_def Let_def split: option.splits)

lemma found_image:
  "(\<exists>addr \<in> set addrs. Address addr = Address sa) \<longleftrightarrow> Address sa \<in> Address ` set addrs"
  by force

lemma patchFrom_From:
  "Header (patchFrom L (Some sa) msg) ''From'' =
     (if containsAddress L (Header msg) ''From'' sa then Header msg ''From''
      else Some [AddressString L sa])"
proof (cases "AddressList L (Header msg) ''From''")
  case None
  then show ?thesis by (simp add: patchFrom_def containsAddress_def)
next
  case (Some addrs)
  then show ?thesis by (simp add: patchFrom_def containsAddress_def found_image)
qed

lemma reconcile_From:
  "Header (reconcile L (Some sa) rcpts msg) ''From'' =
     (if containsAddress L (Header msg) ''From'' sa then Header msg ''From''
      else Some [AddressString L sa])"
proof -
  have same: "Header (patchBcc L rcpts msg) ''From'' = Header msg ''From''"
    by (simp add: patchBcc_other)
  then have "containsAddress L (Header (patchBcc L rcpts msg)) ''From'' sa
               = containsAddress L (Header msg) ''From'' sa"
    by (rule containsAddress_cong)
  with same show ?thesis by (simp add: reconcile_def patchFrom_From)
qed

lemma containsAddress_single:
  "h key = Some [v] \<Longrightarrow> v \<noteq> [] \<Longrightarrow> ParseAddressList L v = Some l \<Longrightarrow>
   Address a \<in> Address ` set l \<Longrightarrow> containsAddress L h key a"
  by (simp add: containsAddress_def AddressList_def Get_def)

lemma reconcile_other:
  "key \<noteq> ''From'' \<Longrightarrow> key \<noteq> ''Bcc'' \<Longrightarrow>
   Header (reconcile L sndr rcpts msg) key = Header msg key"
  by (simp add: reconcile_def patchFrom_other patchBcc_other)

lemma reconcile_Body: "Body (reconcile L sndr rcpts msg) = Body msg"
  by (simp add: reconcile_def patchFrom_Body patchBcc_Body)

text \<open>
  What the Bcc patch writes: nothing when no envelope recipient is missing from the
  parsed To, Cc and Bcc lists; otherwise one value, made of the first old value (when
  there is one and it is not empty) and the missing recipients, in envelope order.
\<close>

lemma reconcile_Bcc:
  "Header (reconcile L sndr rcpts msg) ''Bcc'' =
     (if missingRecipients L rcpts msg = [] then Header msg ''Bcc''
      else if Get (Header msg) ''Bcc'' \<noteq> []
      then Some [Get (Header msg) ''Bcc'' @ '', '' @ Join (missingRecipients L rcpts msg) '', '']
      else Some [Join (missingRecipients L rcpts msg) '', ''])"
  by (simp add: reconcile_def patchFrom_other patchBcc_def Let_def)

text \<open>
  C4: after reconciliation with envelope sender \<open>sa\<close>, the From header is what it was
  when it parsed to a list with the sender's address, and otherwise (absent, empty,
  unparsable, or parsed without that address) it is the single value
  \<^verbatim>\<open>sa.String()\<close>. So it contains the sender's address, given that the library reads the
  string it formats for \<open>sa\<close> back as a list with that address.
\<close>

theorem from_reconciled:
  "(containsAddress L (Header msg) ''From'' sa
      \<longrightarrow> Header (reconcile L (Some sa) rcpts msg) ''From'' = Header msg ''From'') \<and>
   (\<not> containsAddress L (Header msg) ''From'' sa
      \<longrightarrow> Header (reconcile L (Some sa) rcpts msg) ''From'' = Some [AddressString L sa]) \<and>
   (AddressString L sa \<noteq> [] \<and>
    (\<exists>l. ParseAddressList L (AddressString L sa) = Some l \<and> Address sa \<in> Address ` set l)
      \<longrightarrow> containsAddress L (Header (reconcile L (Some sa) rcpts msg)) ''From'' sa)"
proof (intro conjI impI)
  assume "containsAddress L (Header msg) ''From'' sa"
  then show "Header (reconcile L (Some sa) rcpts msg) ''From'' = Header msg ''From''"
    by (simp add: reconcile_From)
next
  assume "\<not> containsAddress L (Header msg) ''From'' sa"
  then show "Header (reconcile L (Some sa) rcpts msg) ''From'' = Some [AddressString L sa]"
    by (simp add: reconcile_From)
next
  assume rt: "AddressString L sa \<noteq> [] \<and>
    (\<exists>l. ParseAddressList L (AddressString L sa) = Some l \<and> Address sa \<in> Address ` set l)"
  show "containsAddress L (Header (reconcile L (Some sa) rcpts msg)) ''From'' sa"
  proof (cases "containsAddress L (Header msg) ''From'' sa")
    case True
    then have "Header (reconcile L (Some sa) rcpts msg) ''From'' = Header msg ''From''"
      by (simp add: reconcile_From)
    then have "containsAddress L (Header (reconcile L (Some sa) rcpts msg)) ''From'' sa
                 = containsAddress L (Header msg) ''From'' sa"
      by (rule containsAddress_cong)
    with True show ?thesis by simp
  next
    case False
    then have "Header (reconcile L (Some sa) rcpts msg) ''From'' = Some [AddressString L sa]"
      by (simp add: reconcile_From)
    with rt show ?thesis
      using containsAddress_single by blast
  qed
qed

text \<open>
  Envelope sender \<^verbatim>\<open>s@x\<close>: a From header that names it stays, one that names \<^verbatim>\<open>o@x\<close> is
  replaced by \<^verbatim>\<open><s@x>\<close>, which parses back to \<^verbatim>\<open>s@x\<close>.
\<close>

theorem from_reconciled_witness:
  "containsAddress demoLib (Header (demoMessage ''s@x'' [])) ''From'' (demoAddr ''s@x'') \<and>
   Header (reconcile demoLib (Some (demoAddr ''s@x'')) [demoAddr ''a@x'']
             (demoMessage ''s@x'' [])) ''From'' = Some [''s@x''] \<and>
   \<not> containsAddress demoLib (Header (demoMessage ''o@x'' [])) ''From'' (demoAddr ''s@x'') \<and>
   Header (reconcile demoLib (Some (demoAddr ''s@x'')) [demoAddr ''a@x'']
             (demoMessage ''o@x'' [])) ''From'' = Some [''<s@x>''] \<and>
   containsAddress demoLib
     (Header (reconcile demoLib (Some (demoAddr ''s@x'')) [demoAddr ''a@x'']
                (demoMessage ''o@x'' []))) ''From'' (demoAddr ''s@x'')"
proof -
  have a: "containsAddress demoLib (Header (demoMessage ''s@x'' [])) ''From'' (demoAddr ''s@x'')"
    by (simp add: containsAddress_def AddressList_def Get_def demoMessage_def demoLib_def
        demoParseAddressList_def demoParseAddress_def demoTrim_def demoUnbracket_def
        demoAddr_def)
  have b: "\<not> containsAddress demoLib (Header (demoMessage ''o@x'' [])) ''From''
               (demoAddr ''s@x'')"
    by (simp add: containsAddress_def AddressList_def Get_def demoMessage_def demoLib_def
        demoParseAddressList_def demoParseAddress_def demoTrim_def demoUnbracket_def
        demoAddr_def)
  have c: "AddressString demoLib (demoAddr ''s@x'') = ''<s@x>''"
    by (simp add: demoLib_def demoAddressString_def demoAddr_def)
  have d: "ParseAddressList demoLib ''<s@x>'' = Some [demoAddr ''s@x'']"
    by (simp add: demoLib_def demoParseAddressList_def demoParseAddress_def demoTrim_def
        demoUnbracket_def demoAddr_def)
  have e: "Header (demoMessage ''s@x'' []) ''From'' = Some [''s@x'']"
    by (simp add: demoMessage_def)
  from a b c d e
    from_reconciled [of demoLib "demoMessage ''s@x'' []" "demoAddr ''s@x''" "[demoAddr ''a@x'']"]
    from_reconciled [of demoLib "demoMessage ''o@x'' []" "demoAddr ''s@x''" "[demoAddr ''a@x'']"]
  show ?thesis by simp
qed

section \<open>The fallback message\<close>

lemma fallbackBytes_wire:
  "fallbackBytes L sa rcpts b =
     wireMessage [(''From'', AddressString L sa),
                  (''To'', Join (map (AddressString L) rcpts) '', ''),
                  (''Subject'', ''(no subject)''),
                  (''Content-Type'', ''text/plain; charset=utf-8'')] b"
  by (simp add: fallbackBytes_def wireMessage_def Let_def)

lemma parseMessage_fallback:
  "ReadMessage L b = None \<Longrightarrow>
   parseMessage L sa rcpts b = ReadMessage L (fallbackBytes L sa rcpts b)"
  by (simp add: parseMessage_def)

lemma Data_ready:
  "auth s \<Longrightarrow> sender s = Some sa \<Longrightarrow> recipients s \<noteq> [] \<Longrightarrow>
   fst (Data L handler s (Inr b)) =
     (case parseMessage L sa (recipients s) b of
        None \<Rightarrow> Some (newSMTPError 550 (5, 6, 0) ''invalid message format'')
      | Some msg \<Rightarrow> map_option (newSMTPError 554 (5, 3, 0))
                     (handler (reconcile L (Some sa) (recipients s) msg)))"
  by (simp add: Data_def split: option.splits)

lemma Data_format_error:
  "(\<exists>e. fst (Data L handler s (Inr b)) = Some e \<and> isMessageFormatError e) \<longleftrightarrow>
     auth s \<and> recipients s \<noteq> [] \<and>
     (\<exists>sa. sender s = Some sa \<and> parseMessage L sa (recipients s) b = None)"
  by (auto simp: Data_def isMessageFormatError_def newSMTPError_def split: option.splits)

lemma parseMessage_None:
  "parseMessage L sa rcpts b = None \<longleftrightarrow>
     ReadMessage L b = None \<and> ReadMessage L (fallbackBytes L sa rcpts b) = None"
  by (simp add: parseMessage_def split: option.splits)

text \<open>
  C7: the text that \<^verbatim>\<open>Data\<close> writes when the submitted bytes do not parse is the message
  with the header lines From (the sender's \<^verbatim>\<open>String()\<close>), To (the recipients' \<^verbatim>\<open>String()\<close>
  values in arrival order, joined by comma and space), Subject \<^verbatim>\<open>(no subject)\<close> and
  Content-Type \<^verbatim>\<open>text/plain; charset=utf-8\<close>, an empty line, and the submitted bytes as
  the body. The message handed on is what the library reads from that text, and when
  the bytes were read \<^verbatim>\<open>Data\<close> returns the 550 error \<^verbatim>\<open>invalid message format\<close> exactly when
  the session is ready, the bytes do not parse and this text does not parse either.
\<close>

theorem fallback_message:
  "fallbackBytes L sa rcpts b =
     wireMessage [(''From'', AddressString L sa),
                  (''To'', Join (map (AddressString L) rcpts) '', ''),
                  (''Subject'', ''(no subject)''),
                  (''Content-Type'', ''text/plain; charset=utf-8'')] b \<and>
   (ReadMessage L b = None
      \<longrightarrow> parseMessage L sa rcpts b = ReadMessage L (fallbackBytes L sa rcpts b)) \<and>
   (ReadMessage L b = None \<and> auth s \<and> sender s = Some sa \<and> recipients s = rcpts \<and> rcpts \<noteq> []
      \<longrightarrow> fst (Data L handler s (Inr b)) =
            (case ReadMessage L (fallbackBytes L sa rcpts b) of
               None \<Rightarrow> Some (newSMTPError 550 (5, 6, 0) ''invalid message format'')
             | Some msg \<Rightarrow> map_option (newSMTPError 554 (5, 3, 0))
                            (handler (reconcile L (Some sa) rcpts msg)))) \<and>
   ((\<exists>e. fst (Data L handler s (Inr b)) = Some e \<and> isMessageFormatError e) \<longleftrightarrow>
      auth s \<and> recipients s \<noteq> [] \<and>
      (\<exists>sa'. sender s = Some sa' \<and> ReadMessage L b = None \<and>
             ReadMessage L (fallbackBytes L sa' (recipients s) b) = None))"
proof (intro conjI impI)
  show "fallbackBytes L sa rcpts b =
     wireMessage [(''From'', AddressString L sa),
                  (''To'', Join (map (AddressString L) rcpts) '', ''),
                  (''Subject'', ''(no subject)''),
                  (''Content-Type'', ''text/plain; charset=utf-8'')] b"
    by (rule fallbackBytes_wire)
next
  assume "ReadMessage L b = None"
  then show "parseMessage L sa rcpts b = ReadMessage L (fallbackBytes L sa rcpts b)"
    by (rule parseMessage_fallback)
next
  assume asm: "ReadMessage L b = None \<and> auth s \<and> sender s = Some sa \<and> recipients s = rcpts \<and>
               rcpts \<noteq> []"
  then have eq: "recipients s = rcpts" and a: "auth s" and sd: "sender s = Some sa"
    and ne: "recipients s \<noteq> []" and rn: "ReadMessage L b = None"
    by auto
  show "fst (Data L handler s (Inr b)) =
            (case ReadMessage L (fallbackBytes L sa rcpts b) of
               None \<Rightarrow> Some (newSMTPError 550 (5, 6, 0) ''invalid message format'')
             | Some msg \<Rightarrow> map_option (newSMTPError 554 (5, 3, 0))
                            (handler (reconcile L (Some sa) rcpts msg)))"
    using Data_ready [OF a sd ne, of L handler b] parseMessage_fallback [OF rn, of sa rcpts]
    unfolding eq by simp
next
  show "(\<exists>e. fst (Data L handler s (Inr b)) = Some e \<and> isMessageFormatError e) \<longleftrightarrow>
      auth s \<and> recipients s \<noteq> [] \<and>
      (\<exists>sa'. sender s = Some sa' \<and> ReadMessage L b = None \<and>
             ReadMessage L (fallbackBytes L sa' (recipients s) b) = None)"
    by (simp add: Data_format_error parseMessage_None)
qed

text \<open>
  The scenario of the specification: sender \<^verbatim>\<open>s@x\<close>, recipients \<^verbatim>\<open>a@x\<close> and \<^verbatim>\<open>b@x\<close>, and
  the bytes \<^verbatim>\<open>hello\<close>, which are no message. The fallback is read back with its four
  headers and the body \<^verbatim>\<open>hello\<close>, and the submission is accepted.
\<close>

theorem fallback_message_witness:
  "ReadMessage demoLib ''hello'' = None \<and>
   parseMessage demoLib (demoAddr ''s@x'') [demoAddr ''a@x'', demoAddr ''b@x''] ''hello''
     = Some \<lparr>Header = [''From'' \<mapsto> [''<s@x>''], ''To'' \<mapsto> [''<a@x>, <b@x>''],
                       ''Subject'' \<mapsto> [''(no subject)''],
                       ''Content-Type'' \<mapsto> [''text/plain; charset=utf-8'']],
             Body = ''hello''\<rparr> \<and>
   fst (Data demoLib (\<lambda>m. None)
          (demoSession (Some (demoAddr ''s@x'')) [demoAddr ''a@x'', demoAddr ''b@x''])
          (Inr ''hello'')) = None \<and>
   \<not> (\<exists>e. fst (Data demoLib (\<lambda>m. None)
                 (demoSession (Some (demoAddr ''s@x'')) [demoAddr ''a@x'', demoAddr ''b@x''])
                 (Inr ''hello'')) = Some e \<and> isMessageFormatError e)"
proof -
  let ?s = "demoSession (Some (demoAddr ''s@x'')) [demoAddr ''a@x'', demoAddr ''b@x'']"
  let ?rcpts = "[demoAddr ''a@x'', demoAddr ''b@x'']"
  let ?m = "\<lparr>Header = [''From'' \<mapsto> [''<s@x>''], ''To'' \<mapsto> [''<a@x>, <b@x>''],
                        ''Subject'' \<mapsto> [''(no subject)''],
                        ''Content-Type'' \<mapsto> [''text/plain; charset=utf-8'']],
              Body = ''hello''\<rparr>"
  have none: "ReadMessage demoLib ''hello'' = None"
    by (simp add: demoLib_def demoReadMessage_def)
  have ready: "auth ?s \<and> sender ?s = Some (demoAddr ''s@x'') \<and> recipients ?s = ?rcpts \<and>
               ?rcpts \<noteq> []"
    by (simp add: demoSession_def)
  have hdrs: "AddressString demoLib (demoAddr ''s@x'') = ''<s@x>''"
    "Join (map (AddressString demoLib) ?rcpts) '', '' = ''<a@x>, <b@x>''"
    by (simp_all add: demoLib_def demoAddressString_def demoAddr_def)
  have rd: "ReadMessage demoLib
              (wireMessage [(''From'', ''<s@x>''), (''To'', ''<a@x>, <b@x>''),
                 (''Subject'', ''(no subject)''),
                 (''Content-Type'', ''text/plain; charset=utf-8'')] ''hello'') = Some ?m"
    by (simp add: demoLib_def demoReadMessage_def wireMessage_def demoHeaderLine_def
        demoAddHeader_def demoTrim_def)
  note fm = fallback_message [of demoLib "demoAddr ''s@x''" ?rcpts "''hello''" ?s "\<lambda>m. None"]
  from fm hdrs have wire: "fallbackBytes demoLib (demoAddr ''s@x'') ?rcpts ''hello'' =
      wireMessage [(''From'', ''<s@x>''), (''To'', ''<a@x>, <b@x>''),
        (''Subject'', ''(no subject)''),
        (''Content-Type'', ''text/plain; charset=utf-8'')] ''hello''"
    by simp
  from fm none wire rd
  have parsed: "parseMessage demoLib (demoAddr ''s@x'') ?rcpts ''hello'' = Some ?m"
    by simp
  from fm none ready wire rd
  have accepted: "fst (Data demoLib (\<lambda>m. None) ?s (Inr ''hello'')) = None"
    by simp
  from none parsed accepted show ?thesis by simp
qed

section \<open>The Bcc header after reconciliation\<close>

text \<open>
  The addresses that count as present: those of the lists that \<^verbatim>\<open>Header.AddressList\<close>
  returns for To, for Cc and for Bcc.
\<close>

lemma recipientSet_spec:
  "a \<in> recipientSet L msg \<longleftrightarrow>
     (\<exists>key \<in> {''To'', ''Cc'', ''Bcc''}. \<exists>addrs.
        AddressList L (Header msg) key = Some addrs \<and> a \<in> Address ` set addrs)"
proof -
  have one: "a \<in> set (case AddressList L (Header msg) key of
                          None \<Rightarrow> []
                        | Some addrs \<Rightarrow> map Address addrs) \<longleftrightarrow>
             (\<exists>addrs. AddressList L (Header msg) key = Some addrs \<and>
                      a \<in> Address ` set addrs)" for key
    by (cases "AddressList L (Header msg) key") simp_all
  have "a \<in> recipientSet L msg \<longleftrightarrow>
          (\<exists>key \<in> {''To'', ''Cc'', ''Bcc''}.
             a \<in> set (case AddressList L (Header msg) key of
                         None \<Rightarrow> []
                       | Some addrs \<Rightarrow> map Address addrs))"
    unfolding recipientSet_def by simp
  then show ?thesis unfolding one .
qed

text \<open>
  C2 at a message with two Bcc header lines. The message names \<^verbatim>\<open>a@x\<close> in To, \<^verbatim>\<open>c@x\<close> in
  Cc, and has the Bcc values \<^verbatim>\<open>x@x\<close> and \<^verbatim>\<open>y@x\<close>; the envelope recipients are \<^verbatim>\<open>a@x\<close>,
  \<^verbatim>\<open>c@x\<close>, \<^verbatim>\<open>x@x\<close> and \<^verbatim>\<open>b@x\<close>. The first three are found in the parsed To, Cc and Bcc
  lists and are not added; \<^verbatim>\<open>b@x\<close> is missing and is appended. The patch reads the old
  header with \<^verbatim>\<open>Header.Get\<close>, which gives the first value only, and stores one value:
  the second old value \<^verbatim>\<open>y@x\<close> is no longer in the header, where the claim keeps every
  value the header had. With the envelope \<^verbatim>\<open>a@x\<close>, \<^verbatim>\<open>c@x\<close>, \<^verbatim>\<open>x@x\<close>, where nothing is
  missing, both old values stay. The other headers and the body are as before.
\<close>

theorem bcc_second_value_dropped:
  "ReadMessage demoLib
     (wireMessage [(''From'', ''s@x''), (''To'', ''a@x''), (''Cc'', ''c@x''),
                   (''Bcc'', ''x@x''), (''Bcc'', ''y@x'')] ''hi'')
     = Some (demoMessageCc [''x@x'', ''y@x'']) \<and>
   Header (demoMessageCc [''x@x'', ''y@x'']) ''Bcc'' = Some [''x@x'', ''y@x''] \<and>
   recipientSet demoLib (demoMessageCc [''x@x'', ''y@x'']) = {''a@x'', ''c@x'', ''x@x''} \<and>
   missingRecipients demoLib
     [demoAddr ''a@x'', demoAddr ''c@x'', demoAddr ''x@x'', demoAddr ''b@x'']
     (demoMessageCc [''x@x'', ''y@x'']) = [''<b@x>''] \<and>
   Header (reconcile demoLib (Some (demoAddr ''s@x''))
             [demoAddr ''a@x'', demoAddr ''c@x'', demoAddr ''x@x'', demoAddr ''b@x'']
             (demoMessageCc [''x@x'', ''y@x''])) ''Bcc'' = Some [''x@x, <b@x>''] \<and>
   Header (reconcile demoLib (Some (demoAddr ''s@x''))
             [demoAddr ''a@x'', demoAddr ''c@x'', demoAddr ''x@x'']
             (demoMessageCc [''x@x'', ''y@x''])) ''Bcc'' = Some [''x@x'', ''y@x''] \<and>
   Header (reconcile demoLib (Some (demoAddr ''s@x''))
             [demoAddr ''a@x'', demoAddr ''c@x'', demoAddr ''x@x'', demoAddr ''b@x'']
             (demoMessageCc [''x@x'', ''y@x''])) ''Cc'' = Some [''c@x''] \<and>
   Body (reconcile demoLib (Some (demoAddr ''s@x''))
           [demoAddr ''a@x'', demoAddr ''c@x'', demoAddr ''x@x'', demoAddr ''b@x'']
           (demoMessageCc [''x@x'', ''y@x''])) = ''hi''"
proof -
  let ?m = "demoMessageCc [''x@x'', ''y@x'']"
  let ?all = "[demoAddr ''a@x'', demoAddr ''c@x'', demoAddr ''x@x'', demoAddr ''b@x'']"
  let ?named = "[demoAddr ''a@x'', demoAddr ''c@x'', demoAddr ''x@x'']"
  have rd: "ReadMessage demoLib
              (wireMessage [(''From'', ''s@x''), (''To'', ''a@x''), (''Cc'', ''c@x''),
                            (''Bcc'', ''x@x''), (''Bcc'', ''y@x'')] ''hi'') = Some ?m"
    by (simp add: demoLib_def demoReadMessage_def wireMessage_def demoHeaderLine_def
        demoAddHeader_def demoTrim_def demoMessageCc_def)
  have old: "Header ?m ''Bcc'' = Some [''x@x'', ''y@x'']"
    by (simp add: demoMessageCc_def)
  have present: "recipientSet demoLib ?m = {''a@x'', ''c@x'', ''x@x''}"
    by (simp add: recipientSet_def AddressList_def Get_def demoMessageCc_def demoLib_def
        demoParseAddressList_def demoParseAddress_def demoTrim_def demoUnbracket_def)
  have str: "AddressString demoLib = demoAddressString"
    by (simp add: demoLib_def)
  have miss: "missingRecipients demoLib ?all ?m = [''<b@x>'']"
    by (simp add: missingRecipients_def present str demoAddr_def demoAddressString_def)
  have none: "missingRecipients demoLib ?named ?m = []"
    by (simp add: missingRecipients_def present demoAddr_def)
  have new: "Header (reconcile demoLib (Some (demoAddr ''s@x'')) ?all ?m) ''Bcc''
               = Some [''x@x, <b@x>'']"
    by (simp add: reconcile_Bcc miss Get_def old)
  have kept: "Header (reconcile demoLib (Some (demoAddr ''s@x'')) ?named ?m) ''Bcc''
                = Some [''x@x'', ''y@x'']"
    by (simp add: reconcile_Bcc none old)
  have cc: "Header (reconcile demoLib (Some (demoAddr ''s@x'')) ?all ?m) ''Cc''
              = Some [''c@x'']"
    by (simp add: reconcile_other demoMessageCc_def)
  have body: "Body (reconcile demoLib (Some (demoAddr ''s@x'')) ?all ?m) = ''hi''"
    by (simp add: reconcile_Body demoMessageCc_def)
  from rd old present miss new kept cc body show ?thesis by simp
qed

end
